theory Spec2Isabelle
  imports Complex_Main "HOL-Library.Multiset" "HOL-Library.Char_ord"
    "HOL-Library.List_Lexorder" "HOL-Library.Product_Lexorder"
begin

section \<open>The data model of attrition\_dashboard.py\<close>

text \<open>
  The dashboard reads one CSV file into a pandas DataFrame \<open>df\<close> and works on its rows.
  A row is a record of the columns the script reads; a DataFrame is the list of its rows in
  file order. The text columns (object dtype) are strings, the numeric columns (int64) are
  integers. A cell of the three columns that the grouped counts use as keys (Attrition,
  OverTime, YearsAtCompany) may be missing, as it is after \<open>read_csv\<close> of an empty
  field: it is \<open>None\<close>. (pandas then holds YearsAtCompany as float64; its values are
  still whole numbers, in the same order.) The cells of the other columns are modelled as
  filled.
\<close>

record employee =
  EmployeeNumber :: int
  Department :: string
  JobRole :: string
  EducationField :: string
  MonthlyIncome :: int
  Attrition :: "string option"
  OverTime :: "string option"
  YearsAtCompany :: "int option"
  JobSatisfaction :: int
  Age :: int

type_synonym dataframe = "employee list"

text \<open>
  The sidebar controls (lines 77-105): the text of the search box, the three multiselect
  lists and the pair returned by the income slider.
\<close>

record criteria =
  search_id :: string
  dept_filter :: "string list"
  role_filter :: "string list"
  edu_filter :: "string list"
  salary_range :: "int \<times> int"

section \<open>Stringification of an integer column\<close>

text \<open>
  \<open>astype(str)\<close> on an int64 column gives Python's \<open>str\<close> of each integer: the decimal
  digits, most significant first, after a minus sign for a negative number.
\<close>

definition digit_char :: "nat \<Rightarrow> char" where
  "digit_char d = char_of (48 + d)"

function str_nat :: "nat \<Rightarrow> string" where
  "str_nat n = (if n < 10 then [digit_char n] else str_nat (n div 10) @ [digit_char (n mod 10)])"
  by pat_completeness auto
termination
  by (relation "measure id") auto

declare str_nat.simps [simp del]

definition str_int :: "int \<Rightarrow> string" where
  "str_int i = (if i < 0 then CHR ''-'' # str_nat (nat (- i)) else str_nat (nat i))"

section \<open>The filter (lines 108-117)\<close>

definition isin :: "'a \<Rightarrow> 'a list \<Rightarrow> bool" where
  "isin v vs = (v \<in> set vs)"

text \<open>\<open>Series.between(left, right)\<close> includes both ends by default.\<close>

definition between :: "int \<Rightarrow> int \<Rightarrow> int \<Rightarrow> bool" where
  "between v left right = (left \<le> v \<and> v \<le> right)"

definition category_mask :: "criteria \<Rightarrow> employee \<Rightarrow> bool" where
  "category_mask c r =
     (isin (Department r) (dept_filter c) \<and>
      isin (JobRole r) (role_filter c) \<and>
      isin (EducationField r) (edu_filter c) \<and>
      between (MonthlyIncome r) (fst (salary_range c)) (snd (salary_range c)))"

definition id_mask :: "criteria \<Rightarrow> employee \<Rightarrow> bool" where
  "id_mask c r = (str_int (EmployeeNumber r) = search_id c)"

text \<open>
  Boolean indexing \<open>df[mask]\<close> keeps the rows whose mask is true, in order. The script
  first builds the view of the four category predicates and then, when the search text is
  non-empty (Python truthiness of a string), replaces it by the view of the identifier
  predicate alone, taken from \<open>df\<close> again.
\<close>

definition filtered_df :: "dataframe \<Rightarrow> criteria \<Rightarrow> dataframe" where
  "filtered_df df c =
     (let filtered = filter (category_mask c) df
      in if search_id c \<noteq> [] then filter (id_mask c) df else filtered)"

section \<open>The summary metrics (lines 122-132 and 324-334)\<close>

text \<open>
  A pandas mean is a float64, and the mean of an empty Series is NaN (no exception is
  raised). A float is modelled as the exact rational it approximates, or NaN; the
  rounding of binary floats is not modelled.
\<close>

datatype fval = NaN | Fin rat

definition mean :: "rat list \<Rightarrow> fval" where
  "mean xs = (if xs = [] then NaN else Fin (sum_list xs / of_nat (length xs)))"

fun times_f :: "fval \<Rightarrow> rat \<Rightarrow> fval" where
  "times_f NaN k = NaN"
| "times_f (Fin q) k = Fin (q * k)"

text \<open>The script's \<open>total\<close>; that name is a constant of HOL already.\<close>

definition total_count :: "dataframe \<Rightarrow> nat" where
  "total_count fdf = length fdf"

text \<open>
  The mean of a boolean Series counts True as 1 and False as 0; the comparison of a
  missing cell with \<open>'Yes'\<close> is False.
\<close>

definition attr_rate :: "dataframe \<Rightarrow> fval" where
  "attr_rate fdf = times_f (mean (map (\<lambda>r. if Attrition r = Some ''Yes'' then 1 else 0) fdf)) 100"

definition avg_age :: "dataframe \<Rightarrow> fval" where
  "avg_age fdf = mean (map (\<lambda>r. of_int (Age r)) fdf)"

definition avg_sat :: "dataframe \<Rightarrow> fval" where
  "avg_sat fdf = mean (map (\<lambda>r. of_int (JobSatisfaction r)) fdf)"

text \<open>
  The format specification \<open>:.Nf\<close> of an f-string prints NaN as the text \<open>nan\<close>. How a
  finite float is printed with \<open>N\<close> decimals is the parameter \<open>fx\<close>.
\<close>

fun format_f :: "(nat \<Rightarrow> rat \<Rightarrow> string) \<Rightarrow> nat \<Rightarrow> fval \<Rightarrow> string" where
  "format_f fx n NaN = ''nan''"
| "format_f fx n (Fin q) = fx n q"

text \<open>
  The four metric cards (lines 125-132), each as its label and the text placed in the
  value paragraph; the surrounding HTML is constant and left out.
\<close>

definition metric_cards :: "(nat \<Rightarrow> rat \<Rightarrow> string) \<Rightarrow> dataframe \<Rightarrow> (string \<times> string) list" where
  "metric_cards fx fdf =
     [(''Total Staff'', str_int (int (total_count fdf))),
      (''Attrition Rate'', format_f fx 1 (attr_rate fdf) @ ''%''),
      (''Avg Satisfaction'', format_f fx 2 (avg_sat fdf) @ ''/4''),
      (''Avg Age'', format_f fx 0 (avg_age fdf))]"

section \<open>The grouped counts (lines 165 and 197)\<close>

text \<open>
  \<open>groupby(keys).size().reset_index(name=...)\<close> gives one row per key combination that
  occurs, with the number of rows that have it; \<open>groupby\<close> sorts the group keys
  (\<open>sort=True\<close> is its default), a pair of keys lexicographically, and leaves out every
  row with a missing key cell (\<open>dropna=True\<close> is its default). The key of a row is
  \<open>None\<close> when the row is left out.
\<close>

definition groupby_size :: "('r \<Rightarrow> 'k::linorder option) \<Rightarrow> 'r list \<Rightarrow> ('k \<times> nat) list" where
  "groupby_size key rows =
     map (\<lambda>k. (k, length (filter (\<lambda>r. key r = Some k) rows)))
       (sort (remdups (List.map_filter key rows)))"

text \<open>The key of a row grouped by two columns: missing when either cell is.\<close>

fun key_pair :: "'a option \<Rightarrow> 'b option \<Rightarrow> ('a \<times> 'b) option" where
  "key_pair (Some a) (Some b) = Some (a, b)"
| "key_pair _ _ = None"

definition ot_data :: "dataframe \<Rightarrow> ((string \<times> string) \<times> nat) list" where
  "ot_data fdf = groupby_size (\<lambda>r. key_pair (OverTime r) (Attrition r)) fdf"

definition fig8_data :: "dataframe \<Rightarrow> ((int \<times> string) \<times> nat) list" where
  "fig8_data fdf = groupby_size (\<lambda>r. key_pair (YearsAtCompany r) (Attrition r)) fdf"

section \<open>The report (generate\_pdf, lines 300-369)\<close>

text \<open>
  \<open>generate_pdf\<close> collects a list of flowables, the story, and hands it to the document
  builder. The model returns the story: a paragraph is its text and the name of its
  style, a spacer its width and height.
\<close>

datatype style = Title | Heading2 | Normal

datatype flowable = Paragraph string style | Spacer nat nat

definition newline_indent :: string where
  "newline_indent = CHR 0x0A # ''    ''"

definition summary_text :: "(nat \<Rightarrow> rat \<Rightarrow> string) \<Rightarrow> dataframe \<Rightarrow> string" where
  "summary_text fx fdf =
     newline_indent @ ''<b>Total Employees Analyzed:</b> '' @ str_int (int (total_count fdf)) @ ''<br/>'' @
     newline_indent @ ''<b>Attrition Rate:</b> '' @ format_f fx 2 (attr_rate fdf) @ ''%<br/>'' @
     newline_indent @ ''<b>Average Age:</b> '' @ format_f fx 1 (avg_age fdf) @ ''<br/>'' @
     newline_indent @ ''<b>Average Job Satisfaction:</b> '' @ format_f fx 2 (avg_sat fdf) @ '' / 4'' @
     newline_indent"

definition insights :: "string list" where
  "insights =
     [''Employees working overtime show significantly higher attrition.'',
      ''Highest churn observed in the first 2 years of employment.'',
      ''Lower monthly income strongly correlates with employee exit.'',
      ''Longer distance from home increases attrition risk.'',
      ''Junior-level roles require focused retention strategies.'']"

text \<open>The loop of lines 350-352 appends a paragraph and a spacer for each insight.\<close>

fun append_insights :: "flowable list \<Rightarrow> string list \<Rightarrow> flowable list" where
  "append_insights story [] = story"
| "append_insights story (insight # rest) =
     append_insights (story @ [Paragraph (''- '' @ insight) Normal, Spacer 1 4]) rest"

definition generate_pdf :: "(nat \<Rightarrow> rat \<Rightarrow> string) \<Rightarrow> dataframe \<Rightarrow> flowable list" where
  "generate_pdf fx fdf =
     (let story = [];
          story = story @ [Paragraph ''HR Employees Attrition Analysis Report'' Title];
          story = story @ [Spacer 1 12];
          story = story @ [Paragraph ''<b>Executive Summary</b>'' Heading2];
          story = story @ [Spacer 1 8];
          story = story @ [Paragraph (summary_text fx fdf) Normal];
          story = story @ [Spacer 1 12];
          story = story @ [Paragraph ''<b>Key Insights</b>'' Heading2];
          story = story @ [Spacer 1 8];
          story = append_insights story insights;
          story = story @ [Spacer 1 14];
          story = story @ [Paragraph ''<b>Conclusion</b>'' Heading2];
          story = story @ [Spacer 1 8];
          story = story @ [Paragraph (''Reducing overtime workload and improving engagement for junior employees '' @
                                      ''should be the top priorities to lower attrition in the next quarter.'') Normal]
      in story)"

section \<open>The script as a state transformer\<close>

text \<open>
  Python names refer to objects. The object store is the list of the DataFrames created so
  far, an object's identity its index; the script's names \<open>df\<close> and \<open>filtered_df\<close> hold
  identities, the scalar names hold values. Boolean indexing \<open>df[mask]\<close> creates a new
  DataFrame and leaves its operand as it is; \<open>len\<close>, \<open>mean\<close>, \<open>isin\<close>, \<open>between\<close>
  and \<open>groupby\<close> only read. An identity outside the store is an unbound name.
\<close>

record script_state =
  heap :: "dataframe list"
  df_name :: nat
  filtered_df_name :: "nat option"
  total_name :: "nat option"
  attr_rate_name :: "fval option"

datatype error = NameError

definition deref :: "dataframe list \<Rightarrow> nat \<Rightarrow> error + dataframe" where
  "deref h a = (if a < length h then Inr (h ! a) else Inl NameError)"

definition getitem_mask :: "dataframe list \<Rightarrow> nat \<Rightarrow> (employee \<Rightarrow> bool) \<Rightarrow> error + (dataframe list \<times> nat)" where
  "getitem_mask h a msk =
     (case deref h a of
        Inl e \<Rightarrow> Inl e
      | Inr frame \<Rightarrow> Inr (h @ [filter msk frame], length h))"

text \<open>Lines 108-123: both assignments to \<open>filtered_df\<close>, then \<open>total\<close> and \<open>attr_rate\<close>.\<close>

definition run_script :: "criteria \<Rightarrow> script_state \<Rightarrow> error + script_state" where
  "run_script c s =
     (case getitem_mask (heap s) (df_name s) (category_mask c) of
        Inl e \<Rightarrow> Inl e
      | Inr (h1, a1) \<Rightarrow>
          (case (if search_id c \<noteq> [] then getitem_mask h1 (df_name s) (id_mask c) else Inr (h1, a1)) of
             Inl e \<Rightarrow> Inl e
           | Inr (h2, a2) \<Rightarrow>
               (case deref h2 a2 of
                  Inl e \<Rightarrow> Inl e
                | Inr view \<Rightarrow>
                    Inr (s\<lparr>heap := h2, filtered_df_name := Some a2,
                           total_name := Some (total_count view),
                           attr_rate_name := Some (attr_rate view)\<rparr>))))"

section \<open>Example data\<close>

text \<open>Rows and settings of the controls, used to run the definitions.\<close>

definition emp1 :: employee where
  "emp1 = \<lparr>EmployeeNumber = 1, Department = ''Sales'', JobRole = ''Sales Executive'',
            EducationField = ''Marketing'', MonthlyIncome = 5000, Attrition = Some ''Yes'',
            OverTime = Some ''Yes'', YearsAtCompany = Some 2, JobSatisfaction = 2, Age = 29\<rparr>"

definition emp2 :: employee where
  "emp2 = \<lparr>EmployeeNumber = 2, Department = ''Research & Development'',
            JobRole = ''Research Scientist'', EducationField = ''Life Sciences'',
            MonthlyIncome = 9000, Attrition = Some ''No'', OverTime = Some ''No'',
            YearsAtCompany = Some 7, JobSatisfaction = 4, Age = 41\<rparr>"

text \<open>A row whose OverTime and YearsAtCompany cells are missing.\<close>

definition emp3 :: employee where
  "emp3 = \<lparr>EmployeeNumber = 3, Department = ''Sales'', JobRole = ''Sales Executive'',
            EducationField = ''Marketing'', MonthlyIncome = 4000, Attrition = Some ''No'',
            OverTime = None, YearsAtCompany = None, JobSatisfaction = 3, Age = 35\<rparr>"

definition crit_sales :: criteria where
  "crit_sales = \<lparr>search_id = [], dept_filter = [''Sales''],
                  role_filter = [''Sales Executive'', ''Research Scientist''],
                  edu_filter = [''Marketing'', ''Life Sciences''], salary_range = (0, 10000)\<rparr>"

definition crit_id2 :: criteria where
  "crit_id2 = \<lparr>search_id = ''2'', dept_filter = [''Sales''],
                role_filter = [''Sales Executive'', ''Research Scientist''],
                edu_filter = [''Marketing'', ''Life Sciences''], salary_range = (0, 10000)\<rparr>"

definition crit_no_dept :: criteria where
  "crit_no_dept = \<lparr>search_id = [], dept_filter = [],
                    role_filter = [''Sales Executive'', ''Research Scientist''],
                    edu_filter = [''Marketing'', ''Life Sciences''], salary_range = (0, 10000)\<rparr>"

text \<open>A formatter for finite floats that prints the integer part only, to run examples.\<close>

definition fx_example :: "nat \<Rightarrow> rat \<Rightarrow> string" where
  "fx_example n q = str_int \<lfloor>q\<rfloor>"

text \<open>The store after loading: the frame of the two example rows is object 0.\<close>

definition state0 :: script_state where
  "state0 = \<lparr>heap = [[emp1, emp2]], df_name = 0, filtered_df_name = None,
             total_name = None, attr_rate_name = None\<rparr>"

section \<open>Stringification is injective\<close>

lemma str_nat_nonempty: "str_nat n \<noteq> []"
  by (subst str_nat.simps) simp

lemma of_char_digit_char: "d < 10 \<Longrightarrow> of_char (digit_char d) = 48 + d"
  by (simp add: digit_char_def)

lemma digit_char_inj: "a < 10 \<Longrightarrow> b < 10 \<Longrightarrow> digit_char a = digit_char b \<Longrightarrow> a = b"
proof -
  assume a: "a < 10" and b: "b < 10" and e: "digit_char a = digit_char b"
  have "48 + a = (of_char (digit_char a) :: nat)"
    using a by (simp only: of_char_digit_char)
  also have "\<dots> = of_char (digit_char b)"
    by (simp only: e)
  also have "\<dots> = 48 + b"
    using b by (simp only: of_char_digit_char)
  finally show "a = b" by simp
qed

lemma digit_char_not_minus: "d < 10 \<Longrightarrow> digit_char d \<noteq> CHR ''-''"
proof
  assume "d < 10" and "digit_char d = CHR ''-''"
  then have "(of_char (CHR ''-'') :: nat) = 48 + d"
    using of_char_digit_char[of d] by simp
  then show False by simp
qed

lemma hd_str_nat: "hd (str_nat n) \<noteq> CHR ''-''"
proof (induction n rule: str_nat.induct)
  case (1 n)
  show ?case
  proof (cases "n < 10")
    case True
    then show ?thesis by (simp add: str_nat.simps[of n] digit_char_not_minus)
  next
    case False
    with 1 str_nat_nonempty[of "n div 10"] show ?thesis
      by (simp add: str_nat.simps[of n])
  qed
qed

lemma str_nat_inj: "str_nat n = str_nat m \<Longrightarrow> n = m"
proof (induction n arbitrary: m rule: str_nat.induct)
  case (1 n)
  show ?case
  proof (cases "n < 10")
    case True
    note n = True
    show ?thesis
    proof (cases "m < 10")
      case True
      with n "1.prems" show ?thesis
        by (simp add: str_nat.simps[of n] str_nat.simps[of m] digit_char_inj)
    next
      case False
      with n "1.prems" str_nat_nonempty[of "m div 10"] show ?thesis
        by (simp add: str_nat.simps[of n] str_nat.simps[of m] )
    qed
  next
    case False
    note n = False
    show ?thesis
    proof (cases "m < 10")
      case True
      with n "1.prems" str_nat_nonempty[of "n div 10"] show ?thesis
        by (simp add: str_nat.simps[of n] str_nat.simps[of m])
    next
      case False
      with n "1.prems" have e: "str_nat (n div 10) = str_nat (m div 10)"
        and d: "digit_char (n mod 10) = digit_char (m mod 10)"
        by (simp_all add: str_nat.simps[of n] str_nat.simps[of m])
      from "1.IH"[OF n e] have "n div 10 = m div 10" .
      moreover from d have "n mod 10 = m mod 10"
        by (rule digit_char_inj[rotated 2]) simp_all
      ultimately show ?thesis
        by (metis div_mult_mod_eq)
    qed
  qed
qed

lemma str_int_inj: "str_int i = str_int j \<Longrightarrow> i = j"
proof -
  assume e: "str_int i = str_int j"
  have neg: "\<And>a b. CHR ''-'' # str_nat a \<noteq> str_nat b"
  proof
    fix a b assume "CHR ''-'' # str_nat a = str_nat b"
    then have "hd (str_nat b) = CHR ''-''" by (metis list.sel(1))
    with hd_str_nat[of b] show False by simp
  qed
  show "i = j"
  proof (cases "i < 0")
    case True
    note i = True
    show ?thesis
    proof (cases "j < 0")
      case True
      with i e have "str_nat (nat (- i)) = str_nat (nat (- j))"
        by (simp add: str_int_def)
      then have "nat (- i) = nat (- j)" by (rule str_nat_inj)
      with i True show ?thesis by simp
    next
      case False
      with i e neg[of "nat (- i)" "nat j"] show ?thesis
        by (simp add: str_int_def)
    qed
  next
    case False
    note i = False
    show ?thesis
    proof (cases "j < 0")
      case True
      with i e neg[of "nat (- j)" "nat i"] show ?thesis
        by (simp add: str_int_def)
    next
      case False
      with i e have "str_nat (nat i) = str_nat (nat j)"
        by (simp add: str_int_def)
      then have "nat i = nat j" by (rule str_nat_inj)
      with i False show ?thesis by simp
    qed
  qed
qed


section \<open>Properties of the filter\<close>

lemma filtered_df_search:
  "search_id c \<noteq> [] \<Longrightarrow> filtered_df df c = filter (id_mask c) df"
  by (simp add: filtered_df_def)

lemma filtered_df_no_search:
  "search_id c = [] \<Longrightarrow> filtered_df df c = filter (category_mask c) df"
  by (simp add: filtered_df_def)

lemma category_mask_unfold:
  "category_mask c =
     (\<lambda>r. Department r \<in> set (dept_filter c) \<and>
           JobRole r \<in> set (role_filter c) \<and>
           EducationField r \<in> set (edu_filter c) \<and>
           fst (salary_range c) \<le> MonthlyIncome r \<and>
           MonthlyIncome r \<le> snd (salary_range c))"
  by (rule ext) (simp add: category_mask_def isin_def between_def)

lemma category_mask_empty_selection:
  "dept_filter c = [] \<or> role_filter c = [] \<or> edu_filter c = [] \<Longrightarrow> \<not> category_mask c r"
  by (auto simp: category_mask_def isin_def)

lemma distinct_all_equal_short:
  assumes "distinct xs" and "\<And>x y. x \<in> set xs \<Longrightarrow> y \<in> set xs \<Longrightarrow> x = y"
  shows "length xs \<le> 1"
proof (cases xs)
  case Nil
  then show ?thesis by simp
next
  case (Cons a ys)
  show ?thesis
  proof (cases ys)
    case Nil
    with Cons show ?thesis by simp
  next
    case (Cons b zs)
    with \<open>xs = a # ys\<close> assms(2)[of a b] assms(1) show ?thesis by simp
  qed
qed

lemma str_int_examples: "str_int 1 = ''1''" "str_int 2 = ''2''"
  by code_simp+

text \<open>
  C2. With a non-empty search text the filtered view is exactly the rows whose employee
  number, as a string, equals the search text; the other four controls have no effect on
  it; and when the employee numbers of the frame are pairwise different the view has at
  most one row.
\<close>

theorem C2_identifier_filter:
  assumes "search_id c \<noteq> []"
  shows "filtered_df df c = filter (\<lambda>r. str_int (EmployeeNumber r) = search_id c) df \<and>
         (\<forall>c'. search_id c' = search_id c \<longrightarrow> filtered_df df c' = filtered_df df c) \<and>
         (distinct (map EmployeeNumber df) \<longrightarrow> length (filtered_df df c) \<le> 1)"
proof (intro conjI allI impI)
  have m: "id_mask c = (\<lambda>r. str_int (EmployeeNumber r) = search_id c)"
    by (rule ext) (simp add: id_mask_def)
  show eq: "filtered_df df c = filter (\<lambda>r. str_int (EmployeeNumber r) = search_id c) df"
    using assms by (simp add: filtered_df_search m)
  show "filtered_df df c' = filtered_df df c" if "search_id c' = search_id c" for c'
  proof -
    have "id_mask c' = id_mask c"
      using that by (intro ext) (simp add: id_mask_def)
    with that assms show ?thesis
      by (simp add: filtered_df_search)
  qed
  show "length (filtered_df df c) \<le> 1" if d: "distinct (map EmployeeNumber df)"
  proof -
    let ?ns = "map EmployeeNumber (filtered_df df c)"
    have "distinct ?ns"
      unfolding eq using d by (rule distinct_map_filter)
    moreover have "x = y" if "x \<in> set ?ns" and "y \<in> set ?ns" for x y
    proof -
      from that have "str_int x = search_id c" and "str_int y = search_id c"
        unfolding eq by auto
      then show ?thesis by (simp add: str_int_inj)
    qed
    ultimately have "length ?ns \<le> 1"
      by (rule distinct_all_equal_short)
    then show ?thesis by simp
  qed
qed

theorem C2_identifier_filter_witness:
  "search_id crit_id2 \<noteq> [] \<and> distinct (map EmployeeNumber [emp1, emp2]) \<and>
   search_id (crit_id2\<lparr>dept_filter := []\<rparr>) = search_id crit_id2 \<and>
   filtered_df [emp1, emp2] crit_id2 = [emp2] \<and>
   filtered_df [emp1, emp2] (crit_id2\<lparr>dept_filter := []\<rparr>) = filtered_df [emp1, emp2] crit_id2 \<and>
   length (filtered_df [emp1, emp2] crit_id2) \<le> 1"
proof -
  have h: "search_id crit_id2 \<noteq> []"
    by (simp add: crit_id2_def)
  have d: "distinct (map EmployeeNumber [emp1, emp2])"
    by (simp add: emp1_def emp2_def)
  have s: "search_id (crit_id2\<lparr>dept_filter := []\<rparr>) = search_id crit_id2"
    by simp
  have v: "filter (\<lambda>r. str_int (EmployeeNumber r) = search_id crit_id2) [emp1, emp2] = [emp2]"
    by (simp add: crit_id2_def emp1_def emp2_def str_int_examples)
  from C2_identifier_filter [OF h, of "[emp1, emp2]"] h d s v show ?thesis
    by simp
qed

text \<open>
  C3. With an empty search text the filtered view is exactly the rows whose department,
  role and education field are in the selected lists and whose monthly income lies in the
  closed slider range; an empty selection in any of the three lists gives the empty view.
\<close>

theorem C3_category_filter:
  assumes "search_id c = []"
  shows "filtered_df df c =
           filter (\<lambda>r. Department r \<in> set (dept_filter c) \<and>
                        JobRole r \<in> set (role_filter c) \<and>
                        EducationField r \<in> set (edu_filter c) \<and>
                        fst (salary_range c) \<le> MonthlyIncome r \<and>
                        MonthlyIncome r \<le> snd (salary_range c)) df \<and>
         (dept_filter c = [] \<or> role_filter c = [] \<or> edu_filter c = [] \<longrightarrow> filtered_df df c = [])"
proof (intro conjI impI)
  show "filtered_df df c =
           filter (\<lambda>r. Department r \<in> set (dept_filter c) \<and>
                        JobRole r \<in> set (role_filter c) \<and>
                        EducationField r \<in> set (edu_filter c) \<and>
                        fst (salary_range c) \<le> MonthlyIncome r \<and>
                        MonthlyIncome r \<le> snd (salary_range c)) df"
    using assms by (simp only: filtered_df_no_search category_mask_unfold)
  assume "dept_filter c = [] \<or> role_filter c = [] \<or> edu_filter c = []"
  then have "\<And>r. \<not> category_mask c r"
    by (rule category_mask_empty_selection)
  then show "filtered_df df c = []"
    using assms by (simp add: filtered_df_no_search)
qed

theorem C3_category_filter_witness:
  "search_id crit_sales = [] \<and> filtered_df [emp1, emp2] crit_sales = [emp1] \<and>
   search_id crit_no_dept = [] \<and> dept_filter crit_no_dept = [] \<and>
   filtered_df [emp1, emp2] crit_no_dept = []"
proof -
  have h1: "search_id crit_sales = []"
    by (simp add: crit_sales_def)
  have h2: "search_id crit_no_dept = []" "dept_filter crit_no_dept = []"
    by (simp_all add: crit_no_dept_def)
  have v: "filter (\<lambda>r. Department r \<in> set (dept_filter crit_sales) \<and>
                        JobRole r \<in> set (role_filter crit_sales) \<and>
                        EducationField r \<in> set (edu_filter crit_sales) \<and>
                        fst (salary_range crit_sales) \<le> MonthlyIncome r \<and>
                        MonthlyIncome r \<le> snd (salary_range crit_sales)) [emp1, emp2] = [emp1]"
    by (simp add: crit_sales_def emp1_def emp2_def)
  from C3_category_filter [OF h1, of "[emp1, emp2]"]
       C3_category_filter [OF h2(1), of "[emp1, emp2]"] h1 h2 v
  show ?thesis by simp
qed

text \<open>
  C4. Filtering is idempotent: the filtered view of a filtered view, under the same
  controls, is that view.
\<close>

theorem C4_filter_idempotent:
  "filtered_df (filtered_df df c) c = filtered_df df c"
  by (cases "search_id c = []") (simp_all add: filtered_df_search filtered_df_no_search)

text \<open>
  C5. The total shown for a filtered view is the number of its rows.
\<close>

theorem C5_total_is_length:
  "total_count (filtered_df df c) = length (filtered_df df c)"
  by (simp add: total_count_def)

section \<open>The summary of an empty view\<close>

lemma str_int_zero: "str_int 0 = ''0''"
  by code_simp

text \<open>
  C1, as amended. On the empty view nothing raises and the total is 0, but the attrition
  rate and both means are NaN, the value pandas gives for the mean of an empty Series, and
  the metric cards and the report summary show it as the text \<open>nan\<close>. The claim as
  stated (zero or neutral values, no NaN in the presented metrics) fails: see the
  counterexample below.
\<close>

theorem C1_empty_view_is_nan:
  "total_count [] = 0 \<and> attr_rate [] = NaN \<and> avg_sat [] = NaN \<and> avg_age [] = NaN \<and>
   map snd (metric_cards fx []) = [''0'', ''nan%'', ''nan/4'', ''nan''] \<and>
   summary_text fx [] =
     newline_indent @ ''<b>Total Employees Analyzed:</b> 0<br/>'' @
     newline_indent @ ''<b>Attrition Rate:</b> nan%<br/>'' @
     newline_indent @ ''<b>Average Age:</b> nan<br/>'' @
     newline_indent @ ''<b>Average Job Satisfaction:</b> nan / 4'' @
     newline_indent"
  by (simp add: total_count_def attr_rate_def avg_sat_def avg_age_def mean_def metric_cards_def
      summary_text_def str_int_zero)

text \<open>
  The claim C1 as stated fails on the empty view: the rate and the means are not 0, and
  three of the four metric cards show \<open>nan\<close>.
\<close>

theorem C1_empty_view_counterexample:
  "attr_rate [] \<noteq> Fin 0 \<and> avg_sat [] \<noteq> Fin 0 \<and> avg_age [] \<noteq> Fin 0 \<and>
   map snd (metric_cards fx_example []) = [''0'', ''nan%'', ''nan/4'', ''nan'']"
  by (simp add: total_count_def attr_rate_def avg_sat_def avg_age_def mean_def metric_cards_def str_int_zero)

section \<open>The insights of the report\<close>

text \<open>
  C7. The insight paragraphs of the report are the same fixed list for every filtered view:
  two runs of \<open>generate_pdf\<close>, on any two views and with any two float formatters, give
  stories that agree from the sixth flowable on (only the summary paragraph, the fifth,
  depends on the view), and the ten flowables after the Key Insights heading are the five
  hardcoded insights, each behind a dash and followed by a spacer.
\<close>

theorem C7_insights_static:
  "drop 5 (generate_pdf fx1 fdf1) = drop 5 (generate_pdf fx2 fdf2) \<and>
   take 10 (drop 8 (generate_pdf fx1 fdf1)) =
     [Paragraph ''- Employees working overtime show significantly higher attrition.'' Normal, Spacer 1 4,
      Paragraph ''- Highest churn observed in the first 2 years of employment.'' Normal, Spacer 1 4,
      Paragraph ''- Lower monthly income strongly correlates with employee exit.'' Normal, Spacer 1 4,
      Paragraph ''- Longer distance from home increases attrition risk.'' Normal, Spacer 1 4,
      Paragraph ''- Junior-level roles require focused retention strategies.'' Normal, Spacer 1 4]"
  by (simp add: generate_pdf_def insights_def)

section \<open>The grouped counts\<close>

lemma groupby_keys:
  "map fst (groupby_size key rows) = sort (remdups (List.map_filter key rows))"
  by (simp add: groupby_size_def comp_def)

lemma groupby_sorted: "sorted_wrt (<) (map fst (groupby_size key rows))"
  by (simp add: groupby_keys strict_sorted_iff)

lemma group_count_mset:
  "length (filter (\<lambda>r. key r = Some k) rows) = count (mset (List.map_filter key rows)) k"
  by (induction rows) (simp_all split: option.split)

lemma mset_map_filter:
  "mset (List.map_filter key rows) = image_mset (the \<circ> key) (filter_mset (\<lambda>r. key r \<noteq> None) (mset rows))"
  by (simp add: List.map_filter_def)

lemma groupby_perm: "mset rows1 = mset rows2 \<Longrightarrow> groupby_size key rows1 = groupby_size key rows2"
proof -
  assume e: "mset rows1 = mset rows2"
  then have m: "mset (List.map_filter key rows1) = mset (List.map_filter key rows2)"
    by (simp only: mset_map_filter)
  then have "set (List.map_filter key rows1) = set (List.map_filter key rows2)"
    by (rule mset_eq_setD)
  then have k: "sort (remdups (List.map_filter key rows1)) = sort (remdups (List.map_filter key rows2))"
    by (metis sorted_list_of_set_sort_remdups)
  have c: "length (filter (\<lambda>r. key r = Some k) rows1) = length (filter (\<lambda>r. key r = Some k) rows2)" for k
    by (simp only: group_count_mset m)
  show ?thesis
    by (simp add: groupby_size_def k c)
qed

lemma groupby_total:
  "sum_list (map snd (groupby_size key rows)) = length (filter (\<lambda>r. key r \<noteq> None) rows)"
proof -
  let ?ks = "List.map_filter key rows"
  let ?M = "mset ?ks"
  have "sum_list (map snd (groupby_size key rows)) = sum_list (map (count ?M) (sort (remdups ?ks)))"
    by (simp add: groupby_size_def comp_def group_count_mset)
  also have "\<dots> = sum (count ?M) (set (sort (remdups ?ks)))"
    by (rule sum_list_distinct_conv_sum_set) simp
  also have "\<dots> = sum (count ?M) (set_mset ?M)"
    by simp
  also have "\<dots> = size ?M"
    by (simp only: size_multiset_overloaded_eq)
  also have "\<dots> = length (filter (\<lambda>r. key r \<noteq> None) rows)"
    by (simp only: size_mset List.map_filter_def length_map)
  finally show ?thesis .
qed

lemma key_pair_present: "key_pair a b \<noteq> None \<longleftrightarrow> a \<noteq> None \<and> b \<noteq> None"
  by (cases a; cases b) simp_all

lemma ot_data_example: "ot_data [emp1, emp2, emp1] = [((''No'', ''No''), 1), ((''Yes'', ''Yes''), 2)]"
  by code_simp

lemma fig8_data_example: "fig8_data [emp1, emp2, emp1] = [((2, ''Yes''), 2), ((7, ''No''), 1)]"
  by code_simp

text \<open>
  C8. Both grouped counts emit their groups in a fixed order: the group keys come out
  strictly ascending (so each key once), and the output depends only on which rows the
  view holds, not on their order; in particular equal views give equal outputs. Rows
  with a missing key cell are left out and do not affect the order.
\<close>

theorem C8_grouped_counts_order:
  "sorted_wrt (<) (map fst (ot_data fdf)) \<and> sorted_wrt (<) (map fst (fig8_data fdf)) \<and>
   (mset fdf' = mset fdf \<longrightarrow> ot_data fdf' = ot_data fdf \<and> fig8_data fdf' = fig8_data fdf)"
proof (intro conjI impI)
  show "sorted_wrt (<) (map fst (ot_data fdf))"
    unfolding ot_data_def by (rule groupby_sorted)
  show "sorted_wrt (<) (map fst (fig8_data fdf))"
    unfolding fig8_data_def by (rule groupby_sorted)
  assume m: "mset fdf' = mset fdf"
  show "ot_data fdf' = ot_data fdf"
    unfolding ot_data_def using m by (rule groupby_perm)
  show "fig8_data fdf' = fig8_data fdf"
    unfolding fig8_data_def using m by (rule groupby_perm)
qed

theorem C8_grouped_counts_order_witness:
  "mset [emp1, emp1, emp2] = mset [emp1, emp2, emp1] \<and>
   ot_data [emp1, emp1, emp2] = [((''No'', ''No''), 1), ((''Yes'', ''Yes''), 2)] \<and>
   fig8_data [emp1, emp1, emp2] = [((2, ''Yes''), 2), ((7, ''No''), 1)] \<and>
   sorted_wrt (<) (map fst (ot_data [emp1, emp2, emp1]))"
proof -
  have m: "mset [emp1, emp1, emp2] = mset [emp1, emp2, emp1]"
    by simp
  from C8_grouped_counts_order [of "[emp1, emp2, emp1]" "[emp1, emp1, emp2]"] m
  show ?thesis
    by (simp only: ot_data_example fig8_data_example simp_thms)
qed

lemma ot_data_total:
  "sum_list (map snd (ot_data fdf)) =
     length (filter (\<lambda>r. OverTime r \<noteq> None \<and> Attrition r \<noteq> None) fdf)"
  by (simp only: ot_data_def groupby_total key_pair_present)

lemma fig8_data_total:
  "sum_list (map snd (fig8_data fdf)) =
     length (filter (\<lambda>r. YearsAtCompany r \<noteq> None \<and> Attrition r \<noteq> None) fdf)"
  by (simp only: fig8_data_def groupby_total key_pair_present)

text \<open>
  C10, as amended. When no row of the view has a missing OverTime or Attrition cell, the
  counts of the overtime-by-attrition groups add up to the number of rows of the view, and
  likewise for the years-at-company-by-attrition groups when no YearsAtCompany or Attrition
  cell is missing. In general each grouping counts exactly the rows whose two key cells
  are present: \<open>groupby\<close> leaves the others out, while \<open>len\<close> counts them.
\<close>

theorem C10_grouped_counts_partition:
  "sum_list (map snd (ot_data fdf)) =
     length (filter (\<lambda>r. OverTime r \<noteq> None \<and> Attrition r \<noteq> None) fdf) \<and>
   sum_list (map snd (fig8_data fdf)) =
     length (filter (\<lambda>r. YearsAtCompany r \<noteq> None \<and> Attrition r \<noteq> None) fdf) \<and>
   ((\<forall>r \<in> set fdf. OverTime r \<noteq> None \<and> Attrition r \<noteq> None) \<longrightarrow>
      sum_list (map snd (ot_data fdf)) = length fdf) \<and>
   ((\<forall>r \<in> set fdf. YearsAtCompany r \<noteq> None \<and> Attrition r \<noteq> None) \<longrightarrow>
      sum_list (map snd (fig8_data fdf)) = length fdf)"
proof (intro conjI impI)
  show "sum_list (map snd (ot_data fdf)) =
          length (filter (\<lambda>r. OverTime r \<noteq> None \<and> Attrition r \<noteq> None) fdf)"
    by (rule ot_data_total)
  show "sum_list (map snd (fig8_data fdf)) =
          length (filter (\<lambda>r. YearsAtCompany r \<noteq> None \<and> Attrition r \<noteq> None) fdf)"
    by (rule fig8_data_total)
next
  assume "\<forall>r \<in> set fdf. OverTime r \<noteq> None \<and> Attrition r \<noteq> None"
  then have "filter (\<lambda>r. OverTime r \<noteq> None \<and> Attrition r \<noteq> None) fdf = fdf"
    by (simp only: filter_id_conv)
  then show "sum_list (map snd (ot_data fdf)) = length fdf"
    by (simp only: ot_data_total)
next
  assume "\<forall>r \<in> set fdf. YearsAtCompany r \<noteq> None \<and> Attrition r \<noteq> None"
  then have "filter (\<lambda>r. YearsAtCompany r \<noteq> None \<and> Attrition r \<noteq> None) fdf = fdf"
    by (simp only: filter_id_conv)
  then show "sum_list (map snd (fig8_data fdf)) = length fdf"
    by (simp only: fig8_data_total)
qed

theorem C10_grouped_counts_partition_witness:
  "OverTime emp1 = Some ''Yes'' \<and> Attrition emp1 = Some ''Yes'' \<and> YearsAtCompany emp1 = Some 2 \<and>
   OverTime emp2 = Some ''No'' \<and> Attrition emp2 = Some ''No'' \<and> YearsAtCompany emp2 = Some 7 \<and>
   length [emp1, emp2, emp1] = 3 \<and>
   sum_list (map snd (ot_data [emp1, emp2, emp1])) = 3 \<and>
   sum_list (map snd (fig8_data [emp1, emp2, emp1])) = 3"
proof -
  have h1: "\<forall>r \<in> set [emp1, emp2, emp1]. OverTime r \<noteq> None \<and> Attrition r \<noteq> None"
    by (simp add: emp1_def emp2_def)
  have h2: "\<forall>r \<in> set [emp1, emp2, emp1]. YearsAtCompany r \<noteq> None \<and> Attrition r \<noteq> None"
    by (simp add: emp1_def emp2_def)
  have c: "OverTime emp1 = Some ''Yes'' \<and> Attrition emp1 = Some ''Yes'' \<and> YearsAtCompany emp1 = Some 2 \<and>
           OverTime emp2 = Some ''No'' \<and> Attrition emp2 = Some ''No'' \<and> YearsAtCompany emp2 = Some 7"
    by (simp add: emp1_def emp2_def)
  from C10_grouped_counts_partition [of "[emp1, emp2, emp1]"] h1 h2
  have "sum_list (map snd (ot_data [emp1, emp2, emp1])) = length [emp1, emp2, emp1] \<and>
        sum_list (map snd (fig8_data [emp1, emp2, emp1])) = length [emp1, emp2, emp1]"
    by blast
  with c show ?thesis
    by simp
qed

text \<open>
  The claim C10 as stated fails on a view with a missing key cell: of three rows, one
  without OverTime and YearsAtCompany, each grouping counts two.
\<close>

theorem C10_missing_key_counterexample:
  "sum_list (map snd (ot_data [emp1, emp2, emp3])) \<noteq> length [emp1, emp2, emp3] \<and>
   sum_list (map snd (fig8_data [emp1, emp2, emp3])) \<noteq> length [emp1, emp2, emp3] \<and>
   length [emp1, emp2, emp3] = 3 \<and>
   ot_data [emp1, emp2, emp3] = [((''No'', ''No''), 1), ((''Yes'', ''Yes''), 1)] \<and>
   sum_list (map snd (ot_data [emp1, emp2, emp3])) = 2 \<and>
   fig8_data [emp1, emp2, emp3] = [((2, ''Yes''), 1), ((7, ''No''), 1)] \<and>
   sum_list (map snd (fig8_data [emp1, emp2, emp3])) = 2"
  by code_simp

section \<open>The script leaves the loaded frame alone\<close>

text \<open>
  C9. When \<open>df\<close> is bound, lines 108-123 run without error, the name \<open>df\<close> still
  refers to the same object, every object that was in the store is unchanged (the store
  only grows), the filtered view is a new object holding \<open>filtered_df\<close> of the loaded
  frame, and the metrics are those of that view.
\<close>

theorem C9_script_leaves_df:
  assumes "df_name s < length (heap s)"
  shows "\<exists>s'. run_script c s = Inr s' \<and>
              df_name s' = df_name s \<and>
              take (length (heap s)) (heap s') = heap s \<and>
              (\<exists>a. filtered_df_name s' = Some a \<and> length (heap s) \<le> a \<and> a < length (heap s') \<and>
                   heap s' ! a = filtered_df (heap s ! df_name s) c) \<and>
              total_name s' = Some (total_count (filtered_df (heap s ! df_name s) c)) \<and>
              attr_rate_name s' = Some (attr_rate (filtered_df (heap s ! df_name s) c))"
proof (cases "search_id c = []")
  case True
  with assms show ?thesis
    by (simp add: run_script_def getitem_mask_def deref_def filtered_df_no_search)
next
  case False
  with assms show ?thesis
    by (simp add: run_script_def getitem_mask_def deref_def filtered_df_search nth_append)
qed

theorem C9_script_leaves_df_witness:
  "df_name state0 < length (heap state0) \<and>
   (\<exists>s'. run_script crit_id2 state0 = Inr s' \<and> df_name s' = 0 \<and>
         take 1 (heap s') = [[emp1, emp2]] \<and> total_name s' = Some 1)"
proof -
  have h: "df_name state0 < length (heap state0)"
    by (simp add: state0_def)
  have v: "filtered_df [emp1, emp2] crit_id2 = [emp2]"
    by (simp add: filtered_df_def id_mask_def crit_id2_def emp1_def emp2_def str_int_examples)
  from C9_script_leaves_df [OF h, of crit_id2] obtain s' where
    "run_script crit_id2 state0 = Inr s'" "df_name s' = df_name state0"
    "take (length (heap state0)) (heap s') = heap state0"
    "total_name s' = Some (total_count (filtered_df (heap state0 ! df_name state0) crit_id2))"
    by blast
  then have "run_script crit_id2 state0 = Inr s' \<and> df_name s' = 0 \<and>
         take 1 (heap s') = [[emp1, emp2]] \<and> total_name s' = Some 1"
    by (simp add: state0_def v total_count_def)
  with h show ?thesis by blast
qed

end
